theory Spec2Isabelle
  imports Main "HOL-Library.Sublist"
begin

section \<open>Population predictor: the single-row frame and its feature alignment\<close>

text \<open>
  The program (\<^verbatim>\<open>app.py\<close>) is one script: it renders a form, builds a one-row data
  frame from the four form values, one-hot encodes the three text columns, aligns the
  columns of the result with the names the loaded model was trained on, and calls the
  model. The frame has one row throughout, so it is modelled by its ordered list of
  columns, each a name and the value of its only cell.
\<close>

subsection \<open>Values, frames and errors\<close>

datatype py_error =
    KeyError string
  | ValueError
  | FileNotFoundError
  | OtherError string

text \<open>
  A cell is a text (a column of dtype object) or a number. An indicator produced by the
  one-hot encoding is modelled by its numeric value 1 (the library stores it as the
  integer 1 or as the boolean True, which is the number 1 in Python arithmetic and
  comparison).
\<close>

datatype cell = Str string | Num int

type_synonym dataframe = "(string \<times> cell) list"

definition columns :: "dataframe \<Rightarrow> string list" where
  "columns df = map fst df"

text \<open>The shape of a one-row frame: \<^verbatim>\<open>(1, number of columns)\<close>.\<close>

definition shape :: "dataframe \<Rightarrow> nat \<times> nat" where
  "shape df = (1, length df)"

subsection \<open>The form values\<close>

record raw_input =
  country_iso :: string
  year :: int
  country_id :: string
  country_name :: string

text \<open>Lines 58 to 63: the frame built from the form values, in the order of the dict.\<close>

definition input_df :: "raw_input \<Rightarrow> dataframe" where
  "input_df r =
     [(''countryiso3code'', Str (country_iso r)),
      (''date'', Num (year r)),
      (''country.id'', Str (country_id r)),
      (''country.value'', Str (country_name r))]"

subsection \<open>One-hot encoding of a one-row frame\<close>

text \<open>Decimal text of a number, as \<^verbatim>\<open>str\<close> gives it: the level name of a numeric cell.\<close>

definition digit_char :: "nat \<Rightarrow> char" where
  "digit_char d = char_of (48 + d)"

function show_nat :: "nat \<Rightarrow> string" where
  "show_nat n = (if n < 10 then [digit_char n] else show_nat (n div 10) @ [digit_char (n mod 10)])"
  by pat_completeness auto
termination
  by (relation "measure (\<lambda>n. n)") auto

definition show_int :: "int \<Rightarrow> string" where
  "show_int i = (if i < 0 then CHR ''-'' # show_nat (nat (- i)) else show_nat (nat i))"

fun level_name :: "cell \<Rightarrow> string" where
  "level_name (Str s) = s"
| "level_name (Num i) = show_int i"

text \<open>
  The indicator columns of one encoded column: one column per distinct value of the
  column, named prefix, separator \<^verbatim>\<open>_\<close>, value. The frame has one row, so a column has
  one value and gives one indicator, which is set.
\<close>

definition dummies_1d :: "string \<Rightarrow> cell \<Rightarrow> dataframe" where
  "dummies_1d pre v = [(pre @ ''_'' @ level_name v, Num 1)]"

text \<open>
  \<^verbatim>\<open>pd.get_dummies(data, columns=cols)\<close>: the columns of \<^verbatim>\<open>data\<close> not named in
  \<^verbatim>\<open>cols\<close>, in their order, followed by the indicators of each column named in
  \<^verbatim>\<open>cols\<close>, in the order of \<^verbatim>\<open>cols\<close>. Selecting a name that is no column of the
  frame raises KeyError.
\<close>

fun encode_columns :: "dataframe \<Rightarrow> string list \<Rightarrow> py_error + dataframe" where
  "encode_columns df [] = Inr []"
| "encode_columns df (c # cs) =
     (case map_of df c of
        None \<Rightarrow> Inl (KeyError c)
      | Some v \<Rightarrow>
          (case encode_columns df cs of
             Inl e \<Rightarrow> Inl e
           | Inr rest \<Rightarrow> Inr (dummies_1d c v @ rest)))"

definition get_dummies :: "dataframe \<Rightarrow> string list \<Rightarrow> py_error + dataframe" where
  "get_dummies df cols =
     (case encode_columns df cols of
        Inl e \<Rightarrow> Inl e
      | Inr dummies \<Rightarrow> Inr (filter (\<lambda>(k, v). k \<notin> set cols) df @ dummies))"

text \<open>Line 66: the three text columns are encoded; \<^verbatim>\<open>date\<close> is not in the list.\<close>

definition categorical_columns :: "string list" where
  "categorical_columns = [''countryiso3code'', ''country.id'', ''country.value'']"

definition input_encoded :: "raw_input \<Rightarrow> py_error + dataframe" where
  "input_encoded r = get_dummies (input_df r) categorical_columns"

subsection \<open>Alignment with the training columns\<close>

text \<open>
  Lines 73 to 75: every training column that is no column of the frame is appended with
  the value 0 (assigning to a new column name appends the column).
\<close>

fun add_missing_columns :: "string list \<Rightarrow> dataframe \<Rightarrow> dataframe" where
  "add_missing_columns [] df = df"
| "add_missing_columns (col # cols) df =
     add_missing_columns cols
       (if col \<notin> set (columns df) then df @ [(col, Num 0)] else df)"

text \<open>
  \<^verbatim>\<open>df[keys]\<close> with a list of names: for each key in turn, the columns of that name; a
  key that is no column raises KeyError.
\<close>

fun select_columns :: "dataframe \<Rightarrow> string list \<Rightarrow> py_error + dataframe" where
  "select_columns df [] = Inr []"
| "select_columns df (k # ks) =
     (case filter (\<lambda>(c, v). c = k) df of
        [] \<Rightarrow> Inl (KeyError k)
      | hit # hits \<Rightarrow>
          (case select_columns df ks of
             Inl e \<Rightarrow> Inl e
           | Inr rest \<Rightarrow> Inr (hit # hits @ rest)))"

text \<open>Lines 73 to 79.\<close>

definition align :: "dataframe \<Rightarrow> string list \<Rightarrow> py_error + dataframe" where
  "align df training_columns =
     (let df' = add_missing_columns training_columns df
      in if length training_columns > 0 then select_columns df' training_columns
         else Inr df')"

text \<open>Lines 58 to 79: from the form values to the frame handed to the model.\<close>

definition feature_vector :: "raw_input \<Rightarrow> string list \<Rightarrow> py_error + dataframe" where
  "feature_vector r training_columns =
     (case input_encoded r of
        Inl e \<Rightarrow> Inl e
      | Inr enc \<Rightarrow> align enc training_columns)"

subsection \<open>The loaded model\<close>

text \<open>
  The model is an opaque pickled object. The script uses two things of it: the optional
  attribute \<^verbatim>\<open>feature_names_in_\<close> and the method \<^verbatim>\<open>predict\<close>. The attribute of a
  fitted estimator is an array of names; the fallback of line 70 is a Python list. The
  two differ in their truth value (line 110): a list is true when it is not empty; an
  array of one element has the truth value of the element, an array of two or more has
  none and the test raises ValueError (an empty array is taken as false).
\<close>

datatype name_array = PyList "string list" | NdArray "string list"

fun elements :: "name_array \<Rightarrow> string list" where
  "elements (PyList xs) = xs"
| "elements (NdArray xs) = xs"

fun truth_value :: "name_array \<Rightarrow> py_error + bool" where
  "truth_value (PyList xs) = Inr (xs \<noteq> [])"
| "truth_value (NdArray []) = Inr False"
| "truth_value (NdArray [x]) = Inr (x \<noteq> [])"
| "truth_value (NdArray (x # y # zs)) = Inl ValueError"

text \<open>
  \<^verbatim>\<open>predict\<close> is a parameter: given the frame it returns the estimate the script
  displays (\<^verbatim>\<open>int(model.predict(frame)[0])\<close>) or raises.
\<close>

record model =
  feature_names_in :: "name_array option"
  predict :: "dataframe \<Rightarrow> py_error + int"

text \<open>Line 70.\<close>

definition training_columns :: "model \<Rightarrow> name_array" where
  "training_columns m = (case feature_names_in m of Some a \<Rightarrow> a | None \<Rightarrow> PyList [])"

subsection \<open>The page\<close>

text \<open>
  One run of the script is the list of elements it renders, in order, and the exception
  that ended it, if one did. Texts are given without their pictographs; a text built from
  run-time values is an element of its own that carries the values.
\<close>

datatype element =
    Title string
  | Write string
  | ErrorBox string
  | SuccessBox string
  | Header string
  | TextInput string string
  | NumberInput string int int int
  | EchoLine string cell
  | Button string
  | Markdown string
  | Metric string int
  | Info string int int
  | PredictionError py_error
  | InputShape "nat \<times> nat"
  | ModelExpects "nat option"
  | Sidebar element

type_synonym run = "element list \<times> py_error option"

text \<open>Sequencing: what follows an uncaught exception is not executed.\<close>

fun and_then :: "run \<Rightarrow> run \<Rightarrow> run" where
  "and_then (shown, None) (rest, r) = (shown @ rest, r)"
| "and_then (shown, Some e) later = (shown, Some e)"

text \<open>
  Lines 14 to 21. The file on disk is absent, unreadable (loading raises the given
  exception) or holds a model. Only FileNotFoundError is caught.
\<close>

datatype artifact = Missing | Unreadable py_error | Pickled model

fun joblib_load :: "artifact \<Rightarrow> py_error + model" where
  "joblib_load Missing = Inl FileNotFoundError"
| "joblib_load (Unreadable e) = Inl e"
| "joblib_load (Pickled m) = Inr m"

definition load_model :: "artifact \<Rightarrow> element list \<times> (py_error + model option)" where
  "load_model a =
     (case joblib_load a of
        Inr m \<Rightarrow> ([], Inr (Some m))
      | Inl FileNotFoundError \<Rightarrow>
          ([ErrorBox ''Model file not found! Please make sure machine_model.pkl is in the same folder.''],
           Inr None)
      | Inl e \<Rightarrow> ([], Inl e))"

text \<open>Lines 29 to 52: the four input fields and the echo of their values.\<close>

definition input_fields :: "element list" where
  "input_fields =
     [Header ''Enter Information'',
      TextInput ''Country Code (3 letters)'' ''KEN'',
      NumberInput ''Year'' 1960 2030 2020,
      TextInput ''Country ID (2 letters)'' ''KE'',
      TextInput ''Country Name'' ''Kenya'']"

definition input_echo :: "raw_input \<Rightarrow> element list" where
  "input_echo r =
     [Header ''Your Input'',
      EchoLine ''Country Code'' (Str (country_iso r)),
      EchoLine ''Year'' (Num (year r)),
      EchoLine ''Country ID'' (Str (country_id r)),
      EchoLine ''Country Name'' (Str (country_name r))]"

definition submit_button :: element where
  "submit_button = Button ''Predict Population''"

text \<open>Lines 81 to 110: the call of the model and the report of its outcome.\<close>

definition predict_and_report :: "model \<Rightarrow> raw_input \<Rightarrow> dataframe \<Rightarrow> name_array \<Rightarrow> run" where
  "predict_and_report m r enc tc =
     (case predict m enc of
        Inr prediction \<Rightarrow>
          ([SuccessBox ''Prediction Complete!'',
            Markdown ''---'',
            Metric ''Predicted Population'' prediction,
            Markdown ''---'',
            Info (country_name r) prediction (year r)], None)
      | Inl e \<Rightarrow>
          and_then
            ([PredictionError e, Write ''**Debug Info:**'', InputShape (shape enc)], None)
            (case truth_value tc of
               Inl e' \<Rightarrow> ([], Some e')
             | Inr b \<Rightarrow>
                 ([ModelExpects (if b then Some (length (elements tc)) else None)], None)))"

text \<open>Lines 55 to 110: what a click on the button runs.\<close>

definition on_predict :: "model \<Rightarrow> raw_input \<Rightarrow> run" where
  "on_predict m r =
     (let tc = training_columns m
      in case feature_vector r (elements tc) of
           Inl e \<Rightarrow> ([], Some e)
         | Inr enc \<Rightarrow> predict_and_report m r enc tc)"

text \<open>Lines 112 to 142: the sidebar and the footer, rendered after the main part.\<close>

definition examples :: "(string \<times> string \<times> string) list" where
  "examples =
     [(''Kenya'', ''KEN'', ''KE''),
      (''USA'', ''USA'', ''US''),
      (''China'', ''CHN'', ''CN''),
      (''India'', ''IND'', ''IN''),
      (''Brazil'', ''BRA'', ''BR'')]"

definition example_lines :: "string \<times> string \<times> string \<Rightarrow> element list" where
  "example_lines ex =
     (case ex of (country, code, ident) \<Rightarrow>
        [Sidebar (Write (''**'' @ country @ ''**'')),
         Sidebar (Write (''Code: '' @ code @ '', ID: '' @ ident))])"

definition sidebar_and_footer :: "element list" where
  "sidebar_and_footer =
     [Sidebar (Header ''How to Use''),
      Sidebar (Write ''Enter Country Code; Choose Year; Enter Country ID; Type Country Name; Click Predict''),
      Sidebar (Markdown ''---''),
      Sidebar (Header ''Example Countries'')]
     @ concat (map example_lines examples)
     @ [Sidebar (Markdown ''---''),
        Sidebar (Write ''**Need Help?**''),
        Sidebar (Write ''Make sure your model file machine_model.pkl is in the same folder as this app!''),
        Markdown ''---'',
        Markdown ''*Built with Streamlit | World Bank Population Data*'']"

text \<open>
  The whole script, run once: with the file found on disk, the values of the four fields
  and whether the button was clicked.
\<close>

definition main_part :: "model option \<Rightarrow> raw_input \<Rightarrow> bool \<Rightarrow> run" where
  "main_part loaded r clicked =
     (case loaded of
        None \<Rightarrow> ([], None)
      | Some m \<Rightarrow>
          and_then
            (SuccessBox ''Model loaded successfully!'' # input_fields @ input_echo r @ [submit_button],
             None)
            (if clicked then on_predict m r else ([], None)))"

definition script :: "artifact \<Rightarrow> raw_input \<Rightarrow> bool \<Rightarrow> run" where
  "script a r clicked =
     and_then
       ([Title ''World Bank Population Predictor'',
         Write ''This app predicts population based on country and year data!''], None)
       (case load_model a of
          (shown, Inl e) \<Rightarrow> (shown, Some e)
        | (shown, Inr loaded) \<Rightarrow>
            and_then (shown, None)
              (and_then (main_part loaded r clicked) (sidebar_and_footer, None)))"

subsection \<open>Inputs used in the examples\<close>

definition kenya :: raw_input where
  "kenya = \<lparr>country_iso = ''KEN'', year = 2020, country_id = ''KE'', country_name = ''Kenya''\<rparr>"

definition failing_model :: model where
  "failing_model =
     \<lparr>feature_names_in = Some (NdArray [''date'', ''countryiso3code_KEN'']),
      predict = (\<lambda>df. Inl (OtherError ''rejected''))\<rparr>"

section \<open>Properties of the encoding and the alignment\<close>

subsection \<open>Auxiliary facts\<close>

lemma input_encoded_eq:
  "input_encoded r =
     Inr [(''date'', Num (year r)),
          (''countryiso3code_'' @ country_iso r, Num 1),
          (''country.id_'' @ country_id r, Num 1),
          (''country.value_'' @ country_name r, Num 1)]"
  by (simp add: input_encoded_def get_dummies_def input_df_def categorical_columns_def dummies_1d_def)

lemma distinct_encoded_names:
  "distinct [''date'', ''countryiso3code_'' @ a, ''country.id_'' @ b, ''country.value_'' @ c]"
  by simp

lemma columns_add_missing:
  "set (columns (add_missing_columns tc df)) = set (columns df) \<union> set tc"
  by (induction tc arbitrary: df) (auto simp: columns_def)

lemma distinct_add_missing:
  "distinct (columns df) \<Longrightarrow> distinct (columns (add_missing_columns tc df))"
  by (induction tc arbitrary: df) (auto simp: columns_def)

lemma map_of_snoc:
  "map_of (df @ [(c, w)]) k =
     (case map_of df k of Some v \<Rightarrow> Some v | None \<Rightarrow> if k = c then Some w else None)"
  by (simp add: map_add_def split: option.splits)

lemma map_of_add_missing:
  "map_of (add_missing_columns tc df) k =
     (case map_of df k of Some v \<Rightarrow> Some v | None \<Rightarrow> if k \<in> set tc then Some (Num 0) else None)"
proof (induction tc arbitrary: df)
  case Nil
  then show ?case by (simp split: option.splits)
next
  case (Cons c tc)
  show ?case
  proof (cases "c \<in> set (columns df)")
    case True
    then have "map_of df c \<noteq> None"
      by (simp add: columns_def map_of_eq_None_iff)
    with True show ?thesis
      by (auto simp: Cons.IH split: option.splits)
  next
    case False
    then have "map_of df c = None"
      by (simp add: columns_def map_of_eq_None_iff)
    with False show ?thesis
      by (auto simp: Cons.IH map_of_snoc split: option.splits)
  qed
qed

lemma filter_distinct_key:
  "distinct (map fst df) \<Longrightarrow> map_of df k = Some v \<Longrightarrow> filter (\<lambda>(c, v). c = k) df = [(k, v)]"
proof (induction df)
  case Nil
  then show ?case by simp
next
  case (Cons p df)
  obtain c w where p: "p = (c, w)" by (cases p)
  show ?case
  proof (cases "c = k")
    case True
    with Cons.prems p have "k \<notin> fst ` set df" by simp
    then have "filter (\<lambda>(c, v). c = k) df = []"
      by (force simp: filter_empty_conv)
    with True Cons.prems p show ?thesis by simp
  next
    case False
    with Cons p show ?thesis by simp
  qed
qed

lemma select_columns_distinct:
  "distinct (columns df) \<Longrightarrow> set ks \<subseteq> set (columns df) \<Longrightarrow>
   select_columns df ks = Inr (map (\<lambda>k. (k, the (map_of df k))) ks)"
proof (induction ks)
  case Nil
  then show ?case by simp
next
  case (Cons k ks)
  from Cons.prems obtain v where v: "map_of df k = Some v"
    by (cases "map_of df k") (auto simp: columns_def map_of_eq_None_iff)
  with Cons.prems have "filter (\<lambda>(c, v). c = k) df = [(k, v)]"
    by (simp add: filter_distinct_key columns_def)
  with Cons v show ?case by simp
qed

lemma select_columns_total:
  "set ks \<subseteq> set (columns df) \<Longrightarrow> \<exists>fv. select_columns df ks = Inr fv"
proof (induction ks)
  case Nil
  then show ?case by simp
next
  case (Cons k ks)
  then obtain rest where rest: "select_columns df ks = Inr rest" by auto
  from Cons.prems have "k \<in> fst ` set df" by (simp add: columns_def)
  then have "filter (\<lambda>(c, v). c = k) df \<noteq> []"
    by (force simp: filter_empty_conv)
  then obtain hit hits where "filter (\<lambda>(c, v). c = k) df = hit # hits"
    by (cases "filter (\<lambda>(c, v). c = k) df") auto
  with rest show ?case by simp
qed

text \<open>The value a training column gets: the cell of the frame, or 0 when the frame has no such column.\<close>

lemma align_distinct:
  assumes "distinct (columns df)" and "tc \<noteq> []"
  shows "align df tc =
     Inr (map (\<lambda>k. (k, case map_of df k of Some v \<Rightarrow> v | None \<Rightarrow> Num 0)) tc)"
proof -
  let ?df' = "add_missing_columns tc df"
  have "distinct (columns ?df')"
    using assms(1) by (rule distinct_add_missing)
  moreover have "set tc \<subseteq> set (columns ?df')"
    by (simp add: columns_add_missing)
  ultimately have "select_columns ?df' tc = Inr (map (\<lambda>k. (k, the (map_of ?df' k))) tc)"
    by (rule select_columns_distinct)
  moreover have "map (\<lambda>k. (k, the (map_of ?df' k))) tc
      = map (\<lambda>k. (k, case map_of df k of Some v \<Rightarrow> v | None \<Rightarrow> Num 0)) tc"
    by (rule map_cong) (auto simp: map_of_add_missing split: option.splits)
  ultimately show ?thesis
    using assms(2) by (simp add: align_def Let_def)
qed

lemma align_empty: "align df [] = Inr df"
  by (simp add: align_def)

lemma feature_vector_nonempty:
  assumes "tc \<noteq> []"
  shows "feature_vector r tc =
     Inr (map (\<lambda>k. (k, case map_of [(''date'', Num (year r)),
          (''countryiso3code_'' @ country_iso r, Num 1),
          (''country.id_'' @ country_id r, Num 1),
          (''country.value_'' @ country_name r, Num 1)] k of Some v \<Rightarrow> v | None \<Rightarrow> Num 0)) tc)"
  unfolding feature_vector_def input_encoded_eq sum.case
  by (rule align_distinct) (simp_all add: columns_def assms)



lemma map_of_tabulate:
  "k \<in> set ks \<Longrightarrow> map_of (map (\<lambda>k. (k, g k)) ks) k = Some (g k)"
  by (induction ks) auto

lemma columns_tabulate: "columns (map (\<lambda>k. (k, g k)) ks) = ks"
  by (simp add: columns_def comp_def)

text \<open>
  A name made of a field's prefix and a value other than the entered one is no column of
  the encoding.
\<close>

lemma encoded_lookup_other_level:
  assumes "(field, v) \<in> {(''countryiso3code'', country_iso r), (''country.id'', country_id r),
                          (''country.value'', country_name r)}"
    and "v' \<noteq> v"
  shows "map_of [(''date'', Num (year r)),
          (''countryiso3code_'' @ country_iso r, Num 1),
          (''country.id_'' @ country_id r, Num 1),
          (''country.value_'' @ country_name r, Num 1)] (field @ ''_'' @ v') = None"
  using assms by (elim insertE emptyE) simp_all

subsection \<open>Alignment against a non-empty schema\<close>

text \<open>
  C1. When the schema is not empty and holds the three indicator names of the input
  (\<^verbatim>\<open>countryiso3code_<code>\<close>, \<^verbatim>\<open>country.id_<id>\<close>, \<^verbatim>\<open>country.value_<name>\<close>), the
  alignment returns a frame whose column names are the schema, in the schema's order, and
  the three indicators are 1. For Kenya, 2020 and the schema of its own four columns the
  result is date 2020 and three ones.
\<close>

theorem aligned_keys_equal_schema:
  assumes "schema \<noteq> []"
    and "''countryiso3code_'' @ country_iso r \<in> set schema"
    and "''country.id_'' @ country_id r \<in> set schema"
    and "''country.value_'' @ country_name r \<in> set schema"
  shows "(\<exists>fv. feature_vector r schema = Inr fv
            \<and> set (columns fv) = set schema
            \<and> columns fv = schema
            \<and> map_of fv (''countryiso3code_'' @ country_iso r) = Some (Num 1)
            \<and> map_of fv (''country.id_'' @ country_id r) = Some (Num 1)
            \<and> map_of fv (''country.value_'' @ country_name r) = Some (Num 1))
       \<and> feature_vector kenya
            [''date'', ''countryiso3code_KEN'', ''country.id_KE'', ''country.value_Kenya'']
          = Inr [(''date'', Num 2020), (''countryiso3code_KEN'', Num 1),
                 (''country.id_KE'', Num 1), (''country.value_Kenya'', Num 1)]"
proof
  let ?f = "\<lambda>k. (k, case map_of [(''date'', Num (year r)),
          (''countryiso3code_'' @ country_iso r, Num 1),
          (''country.id_'' @ country_id r, Num 1),
          (''country.value_'' @ country_name r, Num 1)] k of Some v \<Rightarrow> v | None \<Rightarrow> Num 0)"
  have fv: "feature_vector r schema = Inr (map ?f schema)"
    using assms(1) by (rule feature_vector_nonempty)
  have cols: "columns (map ?f schema) = schema"
    by (simp add: columns_def comp_def)
  have look: "map_of (map ?f schema) k = Some (snd (?f k))" if "k \<in> set schema" for k
    using that by (simp add: map_of_tabulate)
  have "map_of (map ?f schema) (''countryiso3code_'' @ country_iso r) = Some (Num 1)"
    using look[OF assms(2)] by simp
  moreover have "map_of (map ?f schema) (''country.id_'' @ country_id r) = Some (Num 1)"
    using look[OF assms(3)] by simp
  moreover have "map_of (map ?f schema) (''country.value_'' @ country_name r) = Some (Num 1)"
    using look[OF assms(4)] by simp
  ultimately show "\<exists>fv. feature_vector r schema = Inr fv
            \<and> set (columns fv) = set schema
            \<and> columns fv = schema
            \<and> map_of fv (''countryiso3code_'' @ country_iso r) = Some (Num 1)
            \<and> map_of fv (''country.id_'' @ country_id r) = Some (Num 1)
            \<and> map_of fv (''country.value_'' @ country_name r) = Some (Num 1)"
    using fv cols by simp
next
  show "feature_vector kenya
            [''date'', ''countryiso3code_KEN'', ''country.id_KE'', ''country.value_Kenya'']
          = Inr [(''date'', Num 2020), (''countryiso3code_KEN'', Num 1),
                 (''country.id_KE'', Num 1), (''country.value_Kenya'', Num 1)]"
    by (simp add: feature_vector_nonempty kenya_def)
qed

text \<open>The theorem at the Kenya input and its own schema.\<close>

theorem aligned_keys_equal_schema_witness:
  "[''date'', ''countryiso3code_KEN'', ''country.id_KE'', ''country.value_Kenya''] \<noteq> []
   \<and> ''countryiso3code_'' @ country_iso kenya
        \<in> set [''date'', ''countryiso3code_KEN'', ''country.id_KE'', ''country.value_Kenya'']
   \<and> ''country.id_'' @ country_id kenya
        \<in> set [''date'', ''countryiso3code_KEN'', ''country.id_KE'', ''country.value_Kenya'']
   \<and> ''country.value_'' @ country_name kenya
        \<in> set [''date'', ''countryiso3code_KEN'', ''country.id_KE'', ''country.value_Kenya'']
   \<and> (\<exists>fv. feature_vector kenya
              [''date'', ''countryiso3code_KEN'', ''country.id_KE'', ''country.value_Kenya'']
            = Inr fv
          \<and> columns fv
            = [''date'', ''countryiso3code_KEN'', ''country.id_KE'', ''country.value_Kenya''])"
  using aligned_keys_equal_schema [of "[''date'', ''countryiso3code_KEN'', ''country.id_KE'', ''country.value_Kenya'']" kenya]
  by (simp add: kenya_def columns_def)

text \<open>
  C2. When the schema is not empty and lacks the indicator name of one of the three text
  fields of the input (an unseen category), the alignment returns a frame of the length of
  the schema; every position of the schema whose name starts with that field's prefix
  holds 0, as does every position whose name is no column of the encoding; and no column
  of the encoding outside the schema is kept. For Kenya, 2020 and the schema
  \<^verbatim>\<open>date, countryiso3code_USA\<close> the result is date 2020 and a zero.
\<close>

theorem unseen_category_zero_filled:
  assumes "schema \<noteq> []"
    and "(field, v) \<in> {(''countryiso3code'', country_iso r), (''country.id'', country_id r),
                          (''country.value'', country_name r)}"
    and "field @ ''_'' @ v \<notin> set schema"
  shows "(\<exists>enc fv. input_encoded r = Inr enc \<and> feature_vector r schema = Inr fv
            \<and> length fv = length schema
            \<and> (\<forall>i<length schema. prefix (field @ ''_'') (schema ! i) \<longrightarrow> fv ! i = (schema ! i, Num 0))
            \<and> (\<forall>i<length schema. schema ! i \<notin> set (columns enc) \<longrightarrow> fv ! i = (schema ! i, Num 0))
            \<and> (\<forall>c\<in>set (columns enc). c \<notin> set schema \<longrightarrow> c \<notin> set (columns fv)))
       \<and> feature_vector kenya [''date'', ''countryiso3code_USA'']
          = Inr [(''date'', Num 2020), (''countryiso3code_USA'', Num 0)]"
proof
  define enc where "enc = [(''date'', Num (year r)),
          (''countryiso3code_'' @ country_iso r, Num 1),
          (''country.id_'' @ country_id r, Num 1),
          (''country.value_'' @ country_name r, Num 1)]"
  define f where "f = (\<lambda>k. (k, case map_of enc k of Some v \<Rightarrow> v | None \<Rightarrow> Num 0))"
  have enc: "input_encoded r = Inr enc"
    unfolding enc_def by (rule input_encoded_eq)
  have fv: "feature_vector r schema = Inr (map f schema)"
    unfolding f_def enc_def using assms(1) by (rule feature_vector_nonempty)
  have zero_field: "map f schema ! i = (schema ! i, Num 0)"
    if "i < length schema" and "prefix (field @ ''_'') (schema ! i)" for i
  proof -
    from that(2) obtain v' where v': "schema ! i = field @ ''_'' @ v'"
      by (auto simp: prefix_def)
    with that(1) assms(3) have "v' \<noteq> v"
      by (metis nth_mem)
    with assms(2) have "map_of enc (field @ ''_'' @ v') = None"
      unfolding enc_def by (rule encoded_lookup_other_level)
    then have "f (schema ! i) = (schema ! i, Num 0)"
      unfolding f_def v' by simp
    with that(1) show ?thesis by simp
  qed
  have zero_absent: "map f schema ! i = (schema ! i, Num 0)"
    if "i < length schema" and "schema ! i \<notin> set (columns enc)" for i
  proof -
    from that(2) have "map_of enc (schema ! i) = None"
      unfolding columns_def map_of_eq_None_iff by simp
    then have "f (schema ! i) = (schema ! i, Num 0)"
      unfolding f_def by simp
    with that(1) show ?thesis by simp
  qed
  have cols: "columns (map f schema) = schema"
    unfolding f_def by (rule columns_tabulate)
  show "\<exists>enc fv. input_encoded r = Inr enc \<and> feature_vector r schema = Inr fv
            \<and> length fv = length schema
            \<and> (\<forall>i<length schema. prefix (field @ ''_'') (schema ! i) \<longrightarrow> fv ! i = (schema ! i, Num 0))
            \<and> (\<forall>i<length schema. schema ! i \<notin> set (columns enc) \<longrightarrow> fv ! i = (schema ! i, Num 0))
            \<and> (\<forall>c\<in>set (columns enc). c \<notin> set schema \<longrightarrow> c \<notin> set (columns fv))"
  proof (intro exI conjI)
    show "input_encoded r = Inr enc" by (rule enc)
    show "feature_vector r schema = Inr (map f schema)" by (rule fv)
    show "length (map f schema) = length schema" by simp
    show "\<forall>i<length schema. prefix (field @ ''_'') (schema ! i) \<longrightarrow> map f schema ! i = (schema ! i, Num 0)"
      using zero_field by blast
    show "\<forall>i<length schema. schema ! i \<notin> set (columns enc) \<longrightarrow> map f schema ! i = (schema ! i, Num 0)"
      using zero_absent by blast
    show "\<forall>c\<in>set (columns enc). c \<notin> set schema \<longrightarrow> c \<notin> set (columns (map f schema))"
      unfolding cols by blast
  qed
next
  show "feature_vector kenya [''date'', ''countryiso3code_USA'']
          = Inr [(''date'', Num 2020), (''countryiso3code_USA'', Num 0)]"
    by (simp add: feature_vector_nonempty kenya_def)
qed

text \<open>
  The theorem at the Kenya input, whose code KEN the schema does not name.
\<close>

theorem unseen_category_zero_filled_witness:
  "[''date'', ''countryiso3code_USA''] \<noteq> []
   \<and> (''countryiso3code'', ''KEN'') \<in> {(''countryiso3code'', country_iso kenya),
         (''country.id'', country_id kenya), (''country.value'', country_name kenya)}
   \<and> ''countryiso3code'' @ ''_'' @ ''KEN'' \<notin> set [''date'', ''countryiso3code_USA'']
   \<and> (1::nat) < length [''date'', ''countryiso3code_USA'']
   \<and> prefix (''countryiso3code'' @ ''_'') ([''date'', ''countryiso3code_USA''] ! 1)
   \<and> (\<exists>fv. feature_vector kenya [''date'', ''countryiso3code_USA''] = Inr fv
          \<and> length fv = 2 \<and> fv ! 1 = (''countryiso3code_USA'', Num 0)
          \<and> ''countryiso3code_KEN'' \<notin> set (columns fv))"
  using unseen_category_zero_filled [of "[''date'', ''countryiso3code_USA'']" "''countryiso3code''" "''KEN''" kenya]
  by (simp add: kenya_def columns_def)

subsection \<open>The empty schema\<close>

text \<open>
  C3. With an empty schema (the model has no \<^verbatim>\<open>feature_names_in_\<close>, or an empty one)
  the alignment returns the frame it was given: the four columns of the encoding, nothing
  added, dropped or reordered.
\<close>

theorem empty_schema_passes_encoding_through:
  "align df [] = Inr df
   \<and> feature_vector r [] = input_encoded r
   \<and> feature_vector r (elements (training_columns (m\<lparr>feature_names_in := None\<rparr>))) = input_encoded r
   \<and> feature_vector r (elements (training_columns (m\<lparr>feature_names_in := Some (PyList [])\<rparr>)))
       = input_encoded r
   \<and> feature_vector r (elements (training_columns (m\<lparr>feature_names_in := Some (NdArray [])\<rparr>)))
       = input_encoded r
   \<and> input_encoded r =
       Inr [(''date'', Num (year r)),
            (''countryiso3code_'' @ country_iso r, Num 1),
            (''country.id_'' @ country_id r, Num 1),
            (''country.value_'' @ country_name r, Num 1)]"
  by (simp add: align_empty feature_vector_def training_columns_def input_encoded_eq)

text \<open>
  C4, as stated, fails: with the empty schema the alignment of the Kenya input returns the
  encoded frame; it is not an error.
\<close>

theorem empty_schema_returns_value:
  "feature_vector kenya [] =
     Inr [(''date'', Num 2020), (''countryiso3code_KEN'', Num 1),
          (''country.id_KE'', Num 1), (''country.value_Kenya'', Num 1)]
   \<and> \<not> isl (feature_vector kenya [])"
  by (simp add: feature_vector_def input_encoded_eq align_empty kenya_def)

text \<open>
  C4, amended. When the model has no \<^verbatim>\<open>feature_names_in_\<close>, or its names are empty,
  the alignment raises no error: it returns the one-hot encoded frame unaligned.
\<close>

theorem empty_schema_raises_no_error:
  assumes "feature_names_in m = None \<or> elements (training_columns m) = []"
  shows "\<not> isl (feature_vector r (elements (training_columns m)))
     \<and> feature_vector r (elements (training_columns m)) = input_encoded r"
proof -
  from assms have "elements (training_columns m) = []"
    by (auto simp: training_columns_def)
  then show ?thesis
    by (simp add: feature_vector_def input_encoded_eq align_empty)
qed

text \<open>
  The theorem at a model without the attribute.
\<close>

theorem empty_schema_raises_no_error_witness:
  "(feature_names_in (failing_model\<lparr>feature_names_in := None\<rparr>) = None
      \<or> elements (training_columns (failing_model\<lparr>feature_names_in := None\<rparr>)) = [])
   \<and> \<not> isl (feature_vector kenya (elements (training_columns (failing_model\<lparr>feature_names_in := None\<rparr>))))"
  using empty_schema_raises_no_error [of "failing_model\<lparr>feature_names_in := None\<rparr>" kenya]
  by (simp add: input_encoded_eq)

subsection \<open>Determinism\<close>

text \<open>
  C5. Two calls with the same four form values and the same schema names give the same
  frame: the result depends on nothing else of the model (neither on \<^verbatim>\<open>predict\<close> nor on
  the kind of sequence that holds the names).
\<close>

theorem feature_vector_depends_on_input_and_names:
  assumes "country_iso r1 = country_iso r2"
    and "year r1 = year r2"
    and "country_id r1 = country_id r2"
    and "country_name r1 = country_name r2"
    and "elements (training_columns m1) = elements (training_columns m2)"
  shows "feature_vector r1 (elements (training_columns m1))
       = feature_vector r2 (elements (training_columns m2))"
  using assms by (simp add: feature_vector_def input_encoded_eq)

text \<open>
  The theorem at the Kenya input and two models that name the same columns, one in an
  array, one in a list.
\<close>

theorem feature_vector_depends_on_input_and_names_witness:
  "country_iso kenya = country_iso kenya \<and> year kenya = year kenya
   \<and> country_id kenya = country_id kenya \<and> country_name kenya = country_name kenya
   \<and> elements (training_columns failing_model)
     = elements (training_columns
         \<lparr>feature_names_in = Some (PyList [''date'', ''countryiso3code_KEN'']),
          predict = (\<lambda>df. Inr 0)\<rparr>)
   \<and> feature_vector kenya (elements (training_columns failing_model))
     = feature_vector kenya (elements (training_columns
         \<lparr>feature_names_in = Some (PyList [''date'', ''countryiso3code_KEN'']),
          predict = (\<lambda>df. Inr 0)\<rparr>))"
  using feature_vector_depends_on_input_and_names [of kenya kenya failing_model
      "\<lparr>feature_names_in = Some (PyList [''date'', ''countryiso3code_KEN'']), predict = (\<lambda>df. Inr 0)\<rparr>"]
  by (simp add: training_columns_def failing_model_def)

subsection \<open>The encoding step\<close>

text \<open>
  C6. The encoding keeps the year as the one column \<^verbatim>\<open>date\<close>, holding the entered
  number; it makes no column whose name starts with \<^verbatim>\<open>date_\<close>, since \<^verbatim>\<open>date\<close> is
  not among the encoded columns: its columns are \<^verbatim>\<open>date\<close> and the three indicators.
  After the alignment, against any schema, every column \<^verbatim>\<open>date\<close> of the frame holds the
  entered number, and there is one when the schema names \<^verbatim>\<open>date\<close>.
\<close>

theorem year_passed_through_unencoded:
  "(\<exists>enc. input_encoded r = Inr enc
       \<and> filter (\<lambda>(k, v). k = ''date'') enc = [(''date'', Num (year r))]
       \<and> filter (prefix ''date_'') (columns enc) = []
       \<and> columns enc = [''date'', ''countryiso3code_'' @ country_iso r,
                          ''country.id_'' @ country_id r, ''country.value_'' @ country_name r])
   \<and> ''date'' \<notin> set categorical_columns
   \<and> (\<exists>fv. feature_vector r schema = Inr fv
         \<and> (\<forall>v. (''date'', v) \<in> set fv \<longrightarrow> v = Num (year r))
         \<and> (''date'' \<in> set schema \<longrightarrow> (''date'', Num (year r)) \<in> set fv))"
proof (intro conjI)
  show "\<exists>enc. input_encoded r = Inr enc
       \<and> filter (\<lambda>(k, v). k = ''date'') enc = [(''date'', Num (year r))]
       \<and> filter (prefix ''date_'') (columns enc) = []
       \<and> columns enc = [''date'', ''countryiso3code_'' @ country_iso r,
                          ''country.id_'' @ country_id r, ''country.value_'' @ country_name r]"
    by (simp add: input_encoded_eq columns_def)
  show "''date'' \<notin> set categorical_columns"
    by (simp add: categorical_columns_def)
  show "\<exists>fv. feature_vector r schema = Inr fv
         \<and> (\<forall>v. (''date'', v) \<in> set fv \<longrightarrow> v = Num (year r))
         \<and> (''date'' \<in> set schema \<longrightarrow> (''date'', Num (year r)) \<in> set fv)"
  proof (cases "schema = []")
    case True
    then show ?thesis
      by (simp add: feature_vector_def input_encoded_eq align_empty)
  next
    case False
    define enc where "enc = [(''date'', Num (year r)),
          (''countryiso3code_'' @ country_iso r, Num 1),
          (''country.id_'' @ country_id r, Num 1),
          (''country.value_'' @ country_name r, Num 1)]"
    define f where "f = (\<lambda>k. (k, case map_of enc k of Some v \<Rightarrow> v | None \<Rightarrow> Num 0))"
    have fv: "feature_vector r schema = Inr (map f schema)"
      unfolding f_def enc_def using False by (rule feature_vector_nonempty)
    have date: "f ''date'' = (''date'', Num (year r))"
      unfolding f_def enc_def by simp
    have "v = Num (year r)" if "(''date'', v) \<in> set (map f schema)" for v
    proof -
      from that obtain k where "(''date'', v) = f k" by auto
      then have "(''date'', v) = f ''date''" by (simp add: f_def)
      with date show ?thesis by simp
    qed
    moreover have "(''date'', Num (year r)) \<in> set (map f schema)" if "''date'' \<in> set schema"
      using that date by (metis image_eqI set_map)
    ultimately show ?thesis
      using fv by blast
  qed
qed

text \<open>
  The theorem at the Kenya input and a schema that names \<^verbatim>\<open>date\<close>.
\<close>

theorem year_passed_through_unencoded_witness:
  "''date'' \<in> set [''date'', ''countryiso3code_USA'']
   \<and> (\<exists>fv. feature_vector kenya [''date'', ''countryiso3code_USA''] = Inr fv
         \<and> (''date'', Num 2020) \<in> set fv \<and> Num 2020 = Num (year kenya))"
  using year_passed_through_unencoded [of kenya "[''date'', ''countryiso3code_USA'']"]
  by (auto simp: kenya_def)

text \<open>
  C7. The encoding of any input has exactly four columns with distinct names:
  \<^verbatim>\<open>date\<close> and, for each of the three text fields, exactly one indicator, named field,
  \<^verbatim>\<open>_\<close>, value, and set to 1.
\<close>

theorem one_hot_gives_four_columns:
  "\<exists>enc. input_encoded r = Inr enc
     \<and> length enc = 4
     \<and> distinct (columns enc)
     \<and> enc = [(''date'', Num (year r)),
              (''countryiso3code_'' @ country_iso r, Num 1),
              (''country.id_'' @ country_id r, Num 1),
              (''country.value_'' @ country_name r, Num 1)]
     \<and> filter (\<lambda>(k, v). prefix ''countryiso3code_'' k) enc
         = [(''countryiso3code'' @ ''_'' @ country_iso r, Num 1)]
     \<and> filter (\<lambda>(k, v). prefix ''country.id_'' k) enc
         = [(''country.id'' @ ''_'' @ country_id r, Num 1)]
     \<and> filter (\<lambda>(k, v). prefix ''country.value_'' k) enc
         = [(''country.value'' @ ''_'' @ country_name r, Num 1)]"
  by (simp add: input_encoded_eq columns_def)

subsection \<open>Totality of the alignment\<close>

text \<open>
  C10. Against a non-empty schema the alignment of the encoding of any input returns a
  frame: after the zero-fill every schema name is a column, so the selection finds every
  key. The same holds for the alignment of any frame.
\<close>

theorem alignment_never_raises:
  assumes "schema \<noteq> []"
  shows "(\<exists>enc fv. input_encoded r = Inr enc
            \<and> set schema \<subseteq> set (columns (add_missing_columns schema enc))
            \<and> select_columns (add_missing_columns schema enc) schema = Inr fv
            \<and> feature_vector r schema = Inr fv)
       \<and> (\<exists>fv. align df schema = Inr fv)"
proof
  define enc where "enc = [(''date'', Num (year r)),
          (''countryiso3code_'' @ country_iso r, Num 1),
          (''country.id_'' @ country_id r, Num 1),
          (''country.value_'' @ country_name r, Num 1)]"
  have enc: "input_encoded r = Inr enc"
    unfolding enc_def by (rule input_encoded_eq)
  have sub: "set schema \<subseteq> set (columns (add_missing_columns schema enc))"
    by (simp add: columns_add_missing)
  then obtain fv where fv: "select_columns (add_missing_columns schema enc) schema = Inr fv"
    using select_columns_total by blast
  with assms have "feature_vector r schema = Inr fv"
    by (simp add: feature_vector_def enc align_def)
  with enc sub fv show "\<exists>enc fv. input_encoded r = Inr enc
            \<and> set schema \<subseteq> set (columns (add_missing_columns schema enc))
            \<and> select_columns (add_missing_columns schema enc) schema = Inr fv
            \<and> feature_vector r schema = Inr fv"
    by blast
next
  have "set schema \<subseteq> set (columns (add_missing_columns schema df))"
    by (simp add: columns_add_missing)
  then obtain fv where "select_columns (add_missing_columns schema df) schema = Inr fv"
    using select_columns_total by blast
  with assms show "\<exists>fv. align df schema = Inr fv"
    by (simp add: align_def)
qed

text \<open>
  The theorem at the Kenya input and a two-column schema.
\<close>

theorem alignment_never_raises_witness:
  "[''date'', ''countryiso3code_USA''] \<noteq> []
   \<and> (\<exists>fv. feature_vector kenya [''date'', ''countryiso3code_USA''] = Inr fv)"
  using alignment_never_raises [of "[''date'', ''countryiso3code_USA'']" kenya "[]"]
  by auto

section \<open>Properties of a run of the script\<close>

subsection \<open>A prediction that fails\<close>

text \<open>
  What a click renders when \<^verbatim>\<open>predict\<close> raises: with the names in an array of two or
  more, the test of line 110 raises ValueError after the shape line; with a list, or with
  no attribute, the line on the expected number of features is written.
\<close>

lemma predict_failure_array:
  assumes "feature_names_in m = Some (NdArray (x # y # zs))"
    and "feature_vector r (x # y # zs) = Inr enc"
    and "predict m enc = Inl e"
  shows "on_predict m r =
     ([PredictionError e, Write ''**Debug Info:**'', InputShape (shape enc)], Some ValueError)"
  using assms by (simp add: on_predict_def training_columns_def predict_and_report_def)

lemma predict_failure_list:
  assumes "feature_names_in m = Some (PyList tc) \<or> (feature_names_in m = None \<and> tc = [])"
    and "feature_vector r tc = Inr enc"
    and "predict m enc = Inl e"
  shows "on_predict m r =
     ([PredictionError e, Write ''**Debug Info:**'', InputShape (shape enc),
       ModelExpects (if tc \<noteq> [] then Some (length tc) else None)], None)"
  using assms by (auto simp: on_predict_def training_columns_def predict_and_report_def)

text \<open>
  C8. The claim is that a failing \<^verbatim>\<open>predict\<close> is reported with the shape of the input and
  the expected number of features. For a model whose names are an array of two columns and
  whose \<^verbatim>\<open>predict\<close> raises, the click renders the error and the shape and then raises
  ValueError: the run ends with that exception and the line on the expected number of
  features is not among the rendered elements.
\<close>

theorem failure_report_raises_on_array_schema:
  "on_predict failing_model kenya =
     ([PredictionError (OtherError ''rejected''), Write ''**Debug Info:**'', InputShape (1, 2)],
      Some ValueError)
   \<and> snd (script (Pickled failing_model) kenya True) = Some ValueError
   \<and> ModelExpects (Some 2) \<notin> set (fst (script (Pickled failing_model) kenya True))"
proof -
  have fv: "feature_vector kenya [''date'', ''countryiso3code_KEN'']
      = Inr [(''date'', Num 2020), (''countryiso3code_KEN'', Num 1)]"
    by (simp add: feature_vector_nonempty kenya_def)
  have click: "on_predict failing_model kenya =
     ([PredictionError (OtherError ''rejected''), Write ''**Debug Info:**'', InputShape (1, 2)],
      Some ValueError)"
    by (simp add: on_predict_def training_columns_def predict_and_report_def failing_model_def fv
        shape_def)
  have "script (Pickled failing_model) kenya True =
     ([Title ''World Bank Population Predictor'',
       Write ''This app predicts population based on country and year data!'',
       SuccessBox ''Model loaded successfully!'']
      @ input_fields @ input_echo kenya
      @ [submit_button, PredictionError (OtherError ''rejected''), Write ''**Debug Info:**'',
         InputShape (1, 2)],
      Some ValueError)"
    by (simp add: script_def load_model_def main_part_def click)
  then show ?thesis
    using click by (simp add: input_fields_def input_echo_def submit_button_def)
qed

subsection \<open>A missing model file\<close>

lemma script_missing:
  "script Missing r clicked =
     ([Title ''World Bank Population Predictor'',
       Write ''This app predicts population based on country and year data!'',
       ErrorBox ''Model file not found! Please make sure machine_model.pkl is in the same folder.'']
      @ sidebar_and_footer, None)"
  by (simp add: script_def load_model_def main_part_def)

lemma sidebar_and_footer_no_form:
  "submit_button \<notin> set sidebar_and_footer \<and> set input_fields \<inter> set sidebar_and_footer = {}"
  by (simp add: sidebar_and_footer_def submit_button_def input_fields_def examples_def example_lines_def)

lemma script_unreadable:
  "e \<noteq> FileNotFoundError \<Longrightarrow> script (Unreadable e) r clicked =
     ([Title ''World Bank Population Predictor'',
       Write ''This app predicts population based on country and year data!''], Some e)"
  by (cases e) (simp_all add: script_def load_model_def)

text \<open>
  C9, as stated, fails: with the model file missing, neither the submit button nor any of
  the four input fields is among the elements the run renders.
\<close>

theorem missing_model_hides_form:
  "submit_button \<notin> set (fst (script Missing kenya False))
   \<and> TextInput ''Country Code (3 letters)'' ''KEN'' \<notin> set (fst (script Missing kenya False))
   \<and> NumberInput ''Year'' 1960 2030 2020 \<notin> set (fst (script Missing kenya False))
   \<and> TextInput ''Country ID (2 letters)'' ''KE'' \<notin> set (fst (script Missing kenya False))
   \<and> TextInput ''Country Name'' ''Kenya'' \<notin> set (fst (script Missing kenya False))"
  using sidebar_and_footer_no_form
  by (simp add: script_missing submit_button_def input_fields_def)

text \<open>
  C9, amended. When the model file is not found, the run renders the title, the
  introduction, the error message, the sidebar and the footer, and ends without an
  exception; the main part renders nothing: no input field, no submit button, and so no
  prediction.
\<close>

theorem missing_model_run:
  "script Missing r clicked =
     ([Title ''World Bank Population Predictor'',
       Write ''This app predicts population based on country and year data!'',
       ErrorBox ''Model file not found! Please make sure machine_model.pkl is in the same folder.'']
      @ sidebar_and_footer, None)
   \<and> submit_button \<notin> set (fst (script Missing r clicked))
   \<and> set input_fields \<inter> set (fst (script Missing r clicked)) = {}
   \<and> main_part None r clicked = ([], None)"
  using sidebar_and_footer_no_form
  by (simp add: script_missing submit_button_def input_fields_def main_part_def)

end
